theory Spec2Isabelle
  imports Complex_Main "HOL-Library.AList" "HOL-Library.Multiset"
begin

section \<open>The in-memory store of \<open>server/storage.ts\<close>\<close>

text \<open>
  \<open>MemStorage\<close> keeps every entity in a JavaScript \<open>Map\<close>. A \<open>Map\<close> remembers insertion
  order, \<open>set\<close> on a present key overwrites in place and on a fresh key appends, and
  \<open>delete\<close> removes the entry. An association list with \<open>map_of\<close> (\<open>get\<close>),
  \<open>AList.update\<close> (\<open>set\<close>) and \<open>AList.delete\<close> (\<open>delete\<close>) behaves the same way.
  Identifiers and counters are JavaScript numbers holding integers and are modelled as
  \<open>int\<close>; nullable columns of the schema are \<open>option\<close>s. The records carry the columns
  that the store's logic and the search route read; columns that are only stored and
  handed back (URLs, duration, advertising counters, timestamps) are left out.
\<close>

record video =
  id_v :: int
  userId_v :: "int option"
  categoryId_v :: "int option"
  title :: string
  description :: "string option"
  views :: int
  likes :: int
  dislikes :: int
  isDeleted :: bool
  permanentlyDeleted :: bool

record comment =
  id_c :: int
  videoId_c :: "int option"
  userId_c :: "int option"
  content :: string

text \<open>
  The payload of \<open>createVideo\<close> (\<open>InsertVideo\<close>): the columns the caller supplies. An
  absent \<open>isDeleted\<close> is falsy.
\<close>

record insertVideo =
  userId_i :: "int option"
  categoryId_i :: "int option"
  title_i :: string
  description_i :: "string option"
  isDeleted_i :: "bool option"

text \<open>The type \<open>Video\<close> with its optional per-user flags, as the store's readers return it.\<close>

record video_view =
  base :: video
  userLiked :: "bool option"
  userDisliked :: "bool option"
  userSaved :: "bool option"

record store =
  videos :: "(int \<times> video) list"
  comments :: "(int \<times> comment) list"
  videoId :: int
  commentId :: int
  userLikes :: "(string \<times> bool) list"
  userDislikes :: "(string \<times> bool) list"
  userSavedVideos :: "(string \<times> bool) list"
  watchHistory :: "(int \<times> int list) list"

datatype error = VideoNotFound

text \<open>The state the constructor builds: empty maps, counters at 1.\<close>

definition init_store :: store where
  "init_store = \<lparr>videos = [], comments = [], videoId = 1, commentId = 1,
     userLikes = [], userDislikes = [], userSavedVideos = [], watchHistory = []\<rparr>"

subsection \<open>Composite keys\<close>

text \<open>
  The relation maps are keyed by the template string \<open>`${id}_${userId}`\<close>: the decimal
  rendering of both numbers around an underscore.
\<close>

definition digit_char :: "nat \<Rightarrow> char" where
  "digit_char d = char_of (48 + d)"

fun show_nat :: "nat \<Rightarrow> string" where
  "show_nat n = (if n < 10 then [digit_char n] else show_nat (n div 10) @ [digit_char (n mod 10)])"

declare show_nat.simps [simp del]

definition show_int :: "int \<Rightarrow> string" where
  "show_int i = (if i < 0 then CHR ''-'' # show_nat (nat (- i)) else show_nat (nat i))"

definition key :: "int \<Rightarrow> int \<Rightarrow> string" where
  "key i u = show_int i @ ''_'' @ show_int u"

text \<open>\<open>m.get(k) || false\<close> and \<open>if (m.get(k))\<close>: only a stored \<open>true\<close> counts.\<close>

definition truthy :: "bool option \<Rightarrow> bool" where
  "truthy b = (b = Some True)"

subsection \<open>Videos\<close>

text \<open>
  \<open>createVideo\<close> spreads the insert payload and sets the fresh id and zeroed counters.
  \<open>permanentlyDeleted\<close> is no column of the schema and starts out absent, hence falsy.
\<close>

definition createVideo :: "insertVideo \<Rightarrow> store \<Rightarrow> video \<times> store" where
  "createVideo video s =
     (let i = videoId s;
          newVideo = \<lparr>id_v = i, userId_v = userId_i video, categoryId_v = categoryId_i video,
                      title = title_i video, description = description_i video,
                      views = 0, likes = 0, dislikes = 0,
                      isDeleted = truthy (isDeleted_i video), permanentlyDeleted = False\<rparr>
      in (newVideo, s\<lparr>videoId := i + 1, videos := AList.update i newVideo (videos s)\<rparr>))"

text \<open>
  \<open>getVideo(id, userId?)\<close>: \<open>undefined\<close> for an unknown id; the flags are attached only
  when \<open>userId\<close> is truthy (present and not 0).
\<close>

definition getVideo :: "int \<Rightarrow> int option \<Rightarrow> store \<Rightarrow> video_view option" where
  "getVideo i userId s =
     (case map_of (videos s) i of
        None \<Rightarrow> None
      | Some video \<Rightarrow>
          (case userId of
             Some u \<Rightarrow>
               if u \<noteq> 0 then
                 Some \<lparr>base = video,
                       userLiked = Some (truthy (map_of (userLikes s) (key i u))),
                       userDisliked = Some (truthy (map_of (userDislikes s) (key i u))),
                       userSaved = Some (truthy (map_of (userSavedVideos s) (key i u)))\<rparr>
               else Some \<lparr>base = video, userLiked = None, userDisliked = None, userSaved = None\<rparr>
           | None \<Rightarrow> Some \<lparr>base = video, userLiked = None, userDisliked = None, userSaved = None\<rparr>))"

definition incrementViews :: "int \<Rightarrow> store \<Rightarrow> store" where
  "incrementViews i s =
     (case map_of (videos s) i of
        None \<Rightarrow> s
      | Some video \<Rightarrow> s\<lparr>videos := AList.update i (video\<lparr>views := views video + 1\<rparr>) (videos s)\<rparr>)"

subsection \<open>The reaction toggles\<close>

text \<open>
  \<open>likeVideo\<close> and \<open>dislikeVideo\<close> throw \<open>Error('Video not found')\<close> before touching
  anything; the model returns the outcome together with the store after the call, so that
  what a failing call leaves behind is part of the result. The stored video object is
  mutated in place and then written back under its own key.
\<close>

definition likeVideo :: "int \<Rightarrow> int \<Rightarrow> store \<Rightarrow> (error + video_view) \<times> store" where
  "likeVideo i userId s =
     (case map_of (videos s) i of
        None \<Rightarrow> (Inl VideoNotFound, s)
      | Some video \<Rightarrow>
          (let likeKey = key i userId;
               dislikeKey = key i userId;
               (video1, s1) =
                 (if truthy (map_of (userLikes s) likeKey) then
                    (video\<lparr>likes := max 0 (likes video - 1)\<rparr>,
                     s\<lparr>userLikes := AList.delete likeKey (userLikes s)\<rparr>)
                  else
                    (let video' = video\<lparr>likes := likes video + 1\<rparr>;
                         s' = s\<lparr>userLikes := AList.update likeKey True (userLikes s)\<rparr>
                     in if truthy (map_of (userDislikes s') dislikeKey) then
                          (video'\<lparr>dislikes := max 0 (dislikes video' - 1)\<rparr>,
                           s'\<lparr>userDislikes := AList.delete dislikeKey (userDislikes s')\<rparr>)
                        else (video', s')));
               s2 = s1\<lparr>videos := AList.update i video1 (videos s1)\<rparr>
           in (Inr \<lparr>base = video1,
                    userLiked = Some (truthy (map_of (userLikes s2) likeKey)),
                    userDisliked = Some (truthy (map_of (userDislikes s2) dislikeKey)),
                    userSaved = None\<rparr>, s2)))"

definition dislikeVideo :: "int \<Rightarrow> int \<Rightarrow> store \<Rightarrow> (error + video_view) \<times> store" where
  "dislikeVideo i userId s =
     (case map_of (videos s) i of
        None \<Rightarrow> (Inl VideoNotFound, s)
      | Some video \<Rightarrow>
          (let likeKey = key i userId;
               dislikeKey = key i userId;
               (video1, s1) =
                 (if truthy (map_of (userDislikes s) dislikeKey) then
                    (video\<lparr>dislikes := max 0 (dislikes video - 1)\<rparr>,
                     s\<lparr>userDislikes := AList.delete dislikeKey (userDislikes s)\<rparr>)
                  else
                    (let video' = video\<lparr>dislikes := dislikes video + 1\<rparr>;
                         s' = s\<lparr>userDislikes := AList.update dislikeKey True (userDislikes s)\<rparr>
                     in if truthy (map_of (userLikes s') likeKey) then
                          (video'\<lparr>likes := max 0 (likes video' - 1)\<rparr>,
                           s'\<lparr>userLikes := AList.delete likeKey (userLikes s')\<rparr>)
                        else (video', s')));
               s2 = s1\<lparr>videos := AList.update i video1 (videos s1)\<rparr>
           in (Inr \<lparr>base = video1,
                    userLiked = Some (truthy (map_of (userLikes s2) likeKey)),
                    userDisliked = Some (truthy (map_of (userDislikes s2) dislikeKey)),
                    userSaved = None\<rparr>, s2)))"

text \<open>Observers used to state the properties: the two edges of a pair and a video's counters.\<close>

definition liked :: "store \<Rightarrow> int \<Rightarrow> int \<Rightarrow> bool" where
  "liked s i u = truthy (map_of (userLikes s) (key i u))"

definition disliked :: "store \<Rightarrow> int \<Rightarrow> int \<Rightarrow> bool" where
  "disliked s i u = truthy (map_of (userDislikes s) (key i u))"

definition likesOf :: "store \<Rightarrow> int \<Rightarrow> int option" where
  "likesOf s i = map_option likes (map_of (videos s) i)"

definition dislikesOf :: "store \<Rightarrow> int \<Rightarrow> int option" where
  "dislikesOf s i = map_option dislikes (map_of (videos s) i)"

subsection \<open>Watch history\<close>

definition historyOf :: "store \<Rightarrow> int \<Rightarrow> int list" where
  "historyOf s userId = (case map_of (watchHistory s) userId of Some h \<Rightarrow> h | None \<Rightarrow> [])"

definition addToWatchHistory :: "int \<Rightarrow> int \<Rightarrow> store \<Rightarrow> store" where
  "addToWatchHistory userId vid s =
     (let history = historyOf s userId;
          filtered = filter (\<lambda>i. i \<noteq> vid) history;
          filtered' = vid # filtered
      in s\<lparr>watchHistory := AList.update userId (take 100 filtered') (watchHistory s)\<rparr>)"

definition getWatchHistory :: "int \<Rightarrow> store \<Rightarrow> video list" where
  "getWatchHistory userId s =
     (let history = historyOf s userId
      in rev (List.map_filter (\<lambda>vid. map_of (videos s) vid) history))"

subsection \<open>Listing, comments and permanent deletion\<close>

text \<open>
  \<open>getVideos(limit, offset, categoryId, showDeleted)\<close>. \<open>!categoryId\<close> holds for a
  missing category and for 0. The comparator \<open>b.id - a.id\<close> is a consistent order, so the
  (stable) sort is the stable sort by descending id. \<open>limit\<close> and \<open>offset\<close> are
  non-negative at every call site, where \<open>slice(offset, offset + limit)\<close> drops and takes.
\<close>

definition getVideos :: "nat \<Rightarrow> nat \<Rightarrow> int option \<Rightarrow> bool \<Rightarrow> store \<Rightarrow> video list" where
  "getVideos limit offset categoryId showDeleted s =
     take limit (drop offset
       (sort_key (\<lambda>v. - id_v v)
         (filter (\<lambda>video. if showDeleted then isDeleted video \<and> \<not> permanentlyDeleted video
                          else \<not> isDeleted video \<and> \<not> permanentlyDeleted video)
           (filter (\<lambda>video. categoryId = None \<or> categoryId = Some 0 \<or> categoryId = Some 1 \<or>
                            categoryId_v video = categoryId)
             (map snd (videos s))))))"

definition createComment :: "int option \<Rightarrow> int option \<Rightarrow> string \<Rightarrow> store \<Rightarrow> comment \<times> store" where
  "createComment vid author txt s =
     (let i = commentId s;
          newComment = \<lparr>id_c = i, videoId_c = vid, userId_c = author, content = txt\<rparr>
      in (newComment, s\<lparr>commentId := i + 1, comments := AList.update i newComment (comments s)\<rparr>))"

definition getVideoComments :: "int \<Rightarrow> store \<Rightarrow> comment list" where
  "getVideoComments vid s =
     sort_key (\<lambda>c. - id_c c) (filter (\<lambda>c. videoId_c c = Some vid) (map snd (comments s)))"

text \<open>
  \<open>permanentlyDeleteVideo\<close> walks a snapshot of the comment entries and deletes, from the
  live map, each one that belongs to the video. Nothing happens for an unknown id.
\<close>

definition permanentlyDeleteVideo :: "int \<Rightarrow> store \<Rightarrow> store" where
  "permanentlyDeleteVideo vid s =
     (case map_of (videos s) vid of
        None \<Rightarrow> s
      | Some video \<Rightarrow>
          (let s1 = s\<lparr>videos := AList.delete vid (videos s)\<rparr>
           in foldl (\<lambda>st (cid, c). if videoId_c c = Some vid
                                    then st\<lparr>comments := AList.delete cid (comments st)\<rparr> else st)
                    s1 (comments s1)))"

section \<open>The search route of \<open>server/routes.ts\<close>\<close>

subsection \<open>Strings and numbers\<close>

text \<open>
  Strings are lists of 8-bit characters, read as the UTF-16 code units below 256 (the
  Latin-1 range). \<open>toLowerCase\<close> and \<open>toUpperCase\<close> map the letters of that range; the
  three small letters whose capital lies outside it (181, 223, 255) are left alone, which
  keeps distinct first letters distinct. White space is what \<open>trim\<close> and the class \<open>\s\<close>
  accept in the range: tab, line feed, vertical tab, form feed, carriage return, space and
  the no-break space.
\<close>

definition lower_char :: "char \<Rightarrow> char" where
  "lower_char c =
     (let n = (of_char c :: nat)
      in if (65 \<le> n \<and> n \<le> 90) \<or> (192 \<le> n \<and> n \<le> 222 \<and> n \<noteq> 215) then char_of (n + 32) else c)"

definition upper_char :: "char \<Rightarrow> char" where
  "upper_char c =
     (let n = (of_char c :: nat)
      in if (97 \<le> n \<and> n \<le> 122) \<or> (224 \<le> n \<and> n \<le> 254 \<and> n \<noteq> 247) then char_of (n - 32) else c)"

definition toLowerCase :: "string \<Rightarrow> string" where
  "toLowerCase s = map lower_char s"

definition toUpperCase :: "string \<Rightarrow> string" where
  "toUpperCase s = map upper_char s"

definition is_space :: "char \<Rightarrow> bool" where
  "is_space c = ((of_char c :: nat) \<in> {9, 10, 11, 12, 13, 32, 160})"

definition trim :: "string \<Rightarrow> string" where
  "trim s = rev (dropWhile is_space (rev (dropWhile is_space s)))"

text \<open>
  \<open>s.split(/\s+/)\<close>: the pieces between maximal runs of white space; a run at either end
  leaves an empty piece there, and the empty string gives one empty piece. The flag says
  that the scan is inside a run.
\<close>

fun split_from :: "bool \<Rightarrow> string \<Rightarrow> string \<Rightarrow> string list" where
  "split_from inrun cur [] = [cur]"
| "split_from inrun cur (c # cs) =
     (if is_space c then (if inrun then split_from True cur cs else cur # split_from True [] cs)
      else split_from False (cur @ [c]) cs)"

definition split_ws :: "string \<Rightarrow> string list" where
  "split_ws s = split_from False [] s"

fun is_prefix :: "string \<Rightarrow> string \<Rightarrow> bool" where
  "is_prefix [] s = True"
| "is_prefix (x # xs) [] = False"
| "is_prefix (x # xs) (y # ys) = (x = y \<and> is_prefix xs ys)"

text \<open>\<open>s.includes(t)\<close>: \<open>t\<close> occurs in \<open>s\<close> at some position.\<close>

fun includes_str :: "string \<Rightarrow> string \<Rightarrow> bool" where
  "includes_str [] t = (t = [])"
| "includes_str (c # cs) t = (is_prefix t (c # cs) \<or> includes_str cs t)"

text \<open>
  A JavaScript number as far as \<open>similarity\<close> needs it: a rational, or \<open>NaN\<close>. Rounding
  of IEEE doubles is not modelled; scores are exact rationals. A comparison with \<open>NaN\<close>
  is false.
\<close>

datatype jsnum = Num rat | NaN

fun js_gt :: "jsnum \<Rightarrow> rat \<Rightarrow> bool" where
  "js_gt (Num r) x = (r > x)"
| "js_gt NaN x = False"

subsection \<open>The helper functions of the route\<close>

text \<open>
  The inner loop of \<open>similarity\<close> over \<open>j\<close>, for the character \<open>s1[i]\<close>, the rest of
  \<open>s2\<close> from position \<open>j\<close>, and the loop variables \<open>distances\<close> and \<open>old\<close>.
\<close>

fun similarity_inner :: "char \<Rightarrow> string \<Rightarrow> nat \<Rightarrow> nat \<Rightarrow> nat list \<Rightarrow> nat \<Rightarrow> nat list \<times> nat" where
  "similarity_inner c [] j prev distances old = (distances, old)"
| "similarity_inner c (d # ds) j prev distances old =
     (let temp = distances ! (j + 1);
          distances' = distances[j + 1 := (if c = d then old
                                           else min old (min prev (distances ! j)) + 1)]
      in similarity_inner c ds (j + 1) prev distances' temp)"

text \<open>The outer loop over \<open>i\<close>; after the inner loop \<open>old\<close> is set to \<open>prev\<close>.\<close>

fun similarity_outer :: "string \<Rightarrow> string \<Rightarrow> nat \<Rightarrow> nat list \<Rightarrow> nat \<Rightarrow> nat list" where
  "similarity_outer [] s2 i distances old = distances"
| "similarity_outer (c # cs) s2 i distances old =
     (let prev = i + 1;
          (distances', old') = similarity_inner c s2 0 prev distances old
      in similarity_outer cs s2 (i + 1) distances' prev)"

text \<open>
  The result is \<open>1 - distances[s2.length] / Math.max(s1.length, s2.length)\<close>. The
  denominator is 0 only when both strings are empty; then \<open>distances\<close> is \<open>[0]\<close>, the
  quotient is \<open>0 / 0\<close>, and the function returns \<open>NaN\<close>.
\<close>

definition similarity :: "string \<Rightarrow> string \<Rightarrow> jsnum" where
  "similarity a b =
     (let (s1, s2) = (if length a < length b then (b, a) else (a, b));
          distances = [0 ..< length s2 + 1];
          distances' = similarity_outer s1 s2 0 distances 0;
          m = max (length s1) (length s2)
      in if m = 0 then NaN
         else Num (1 - rat_of_nat (distances' ! length s2) / rat_of_nat m))"

definition getNGrams :: "string \<Rightarrow> nat \<Rightarrow> string list" where
  "getNGrams text n = map (\<lambda>i. take n (drop i text)) [0 ..< length text + 1 - n]"

definition replace_class :: "string \<Rightarrow> char \<Rightarrow> string \<Rightarrow> string" where
  "replace_class cls d s = map (\<lambda>c. if c \<in> set cls then d else c) s"

definition is_digit :: "char \<Rightarrow> bool" where
  "is_digit c = (let n = (of_char c :: nat) in 48 \<le> n \<and> n \<le> 57)"

text \<open>\<open>.replace(/(\d)\1+/g, '$1')\<close>: a run of one digit collapses to a single digit.\<close>

fun collapse_runs :: "string \<Rightarrow> string" where
  "collapse_runs (x # y # s) =
     (if is_digit x \<and> x = y then collapse_runs (x # s) else x # collapse_runs (y # s))"
| "collapse_runs s = s"

definition getPhoneticCode :: "string \<Rightarrow> string" where
  "getPhoneticCode text =
     (let firstLetter = toUpperCase (take 1 text);
          phonetic = collapse_runs (filter (\<lambda>c. c \<noteq> CHR ''0'')
                      (replace_class ''r'' CHR ''6''
                      (replace_class ''mn'' CHR ''5''
                      (replace_class ''l'' CHR ''4''
                      (replace_class ''dt'' CHR ''3''
                      (replace_class ''cgjkqsxz'' CHR ''2''
                      (replace_class ''bfpv'' CHR ''1''
                      (replace_class ''aeiouyhw'' CHR ''0'' (toLowerCase text)))))))));
          code = take 3 phonetic
      in firstLetter @ code @ replicate (3 - length code) CHR ''0'')"

subsection \<open>Scoring\<close>

text \<open>The body of \<open>titleWords.forEach\<close>, adding to the running score.\<close>

definition titleWordStep :: "string \<Rightarrow> rat \<Rightarrow> string \<Rightarrow> rat" where
  "titleWordStep qWord score word =
     (let simScore = similarity word qWord;
          score1 = (if js_gt simScore (8 / 10) then score + 8
                    else if js_gt simScore (6 / 10) then score + 6 else score);
          score2 = (if getPhoneticCode word = getPhoneticCode qWord then score1 + 7 else score1);
          wordNGrams = getNGrams word 3;
          queryNGrams = getNGrams qWord 3;
          commonNGrams = filter (\<lambda>ng. ng \<in> set queryNGrams) wordNGrams;
          score3 = score2 + rat_of_nat (length commonNGrams) * 2
      in if includes_str word qWord \<or> includes_str qWord word then score3 + 4 else score3)"

text \<open>The body of \<open>descWords.forEach\<close>.\<close>

definition descWordStep :: "string \<Rightarrow> rat \<Rightarrow> string \<Rightarrow> rat" where
  "descWordStep qWord score word =
     (let simScore = similarity word qWord;
          score1 = (if js_gt simScore (8 / 10) then score + 4 else score)
      in if getPhoneticCode word = getPhoneticCode qWord then score1 + 3 else score1)"

text \<open>The body of \<open>queryWords.forEach\<close>.\<close>

definition queryWordStep :: "string \<Rightarrow> string \<Rightarrow> string list \<Rightarrow> string list \<Rightarrow> rat \<Rightarrow> string \<Rightarrow> rat" where
  "queryWordStep ttl descr titleWords descWords score qWord =
     (let score1 = (if includes_str ttl qWord then score + 10 else score);
          score2 = (if includes_str descr qWord then score1 + 5 else score1);
          score3 = foldl (titleWordStep qWord) score2 titleWords
      in foldl (descWordStep qWord) score3 descWords)"

text \<open>The score of one video: the callback of \<open>allVideos.map\<close>.\<close>

definition searchScoreOf :: "string \<Rightarrow> video \<Rightarrow> rat" where
  "searchScoreOf normalizedQuery video =
     (let ttl = toLowerCase (title video);
          descr = toLowerCase (case description video of None \<Rightarrow> [] | Some d \<Rightarrow> d);
          titleWords = split_ws ttl;
          descWords = split_ws descr;
          queryWords = split_ws normalizedQuery;
          score = foldl (queryWordStep ttl descr titleWords descWords) 0 queryWords;
          score' = score + min (rat_of_int (views video) / 1000) 10
      in score' + min (rat_of_int (likes video) / 100) 5)"

record scored =
  scored_video :: video
  searchScore :: rat

subsection \<open>Ordering the results\<close>

text \<open>The comparator handed to \<open>sort\<close>: negative puts \<open>a\<close> first, positive puts \<open>b\<close> first.\<close>

definition popularity :: "scored \<Rightarrow> int" where
  "popularity a = views (scored_video a) + likes (scored_video a) * 2"

definition compareScored :: "scored \<Rightarrow> scored \<Rightarrow> rat" where
  "compareScored a b =
     (let scoreDiff = searchScore b - searchScore a
      in if \<bar>scoreDiff\<bar> > 1 / 10 then scoreDiff
         else (let popularityA = popularity a;
                   popularityB = popularity b
               in rat_of_int (popularityB - popularityA)))"

text \<open>
  The candidates of a query before they are sorted: the fetched videos with their scores,
  those with a positive score kept.
\<close>

definition scoredCandidates :: "string \<Rightarrow> int option \<Rightarrow> store \<Rightarrow> scored list" where
  "scoredCandidates query categoryId s =
     (let normalizedQuery = trim (toLowerCase query);
          allVideos = getVideos 100 0 categoryId False s
      in filter (\<lambda>v. searchScore v > 0)
           (map (\<lambda>video. \<lparr>scored_video = video, searchScore = searchScoreOf normalizedQuery video\<rparr>)
                allVideos))"

text \<open>
  The route: the empty query is answered with the empty list at once; otherwise the
  candidates are sorted with the comparator. \<open>Array.prototype.sort\<close> is the platform's;
  what it returns for a comparator that is not a consistent order is left to the engine,
  so it is a parameter here. The owner summary attached to each result afterwards does not
  change which videos are returned or their order and is left out.
\<close>

definition search :: "((scored \<Rightarrow> scored \<Rightarrow> rat) \<Rightarrow> scored list \<Rightarrow> scored list) \<Rightarrow> string \<Rightarrow> int option \<Rightarrow> store \<Rightarrow> scored list" where
  "search sortWith query categoryId s =
     (if query = [] then [] else sortWith compareScored (scoredCandidates query categoryId s))"

text \<open>
  What it means for one candidate to stand before another, and for a whole result list to
  be ordered, by the ranking rule: a score gap above 0.1 puts the higher score first, a
  gap of at most 0.1 puts the higher popularity first.
\<close>

definition ranked_before :: "scored \<Rightarrow> scored \<Rightarrow> bool" where
  "ranked_before a b =
     (if \<bar>searchScore a - searchScore b\<bar> > 1 / 10 then searchScore a > searchScore b
      else popularity a \<ge> popularity b)"

fun ranking_respected :: "scored list \<Rightarrow> bool" where
  "ranking_respected [] = True"
| "ranking_respected (a # bs) = (list_all (ranked_before a) bs \<and> ranking_respected bs)"

section \<open>Counters\<close>

text \<open>The view, like and dislike counters of every stored video are not negative.\<close>

definition counters_nonneg :: "store \<Rightarrow> bool" where
  "counters_nonneg s = list_all (\<lambda>(i, video). 0 \<le> views video \<and> 0 \<le> likes video \<and> 0 \<le> dislikes video) (videos s)"

section \<open>Reachable stores\<close>

text \<open>
  The relation maps are private. \<open>userLikes\<close> and \<open>userDislikes\<close> are written by
  \<open>likeVideo\<close> and \<open>dislikeVideo\<close> only, \<open>watchHistory\<close> by \<open>addToWatchHistory\<close> only.
  Every other method of the class (creating, updating and deleting videos, comments,
  users, playlists, advertisements, ...) leaves these three maps as they are, which the
  rule \<open>other\<close> covers: it allows any change to the rest of the store.
\<close>

inductive reachable :: "store \<Rightarrow> bool" where
  init: "reachable init_store"
| like: "reachable s \<Longrightarrow> reachable (snd (likeVideo i u s))"
| dislike: "reachable s \<Longrightarrow> reachable (snd (dislikeVideo i u s))"
| history: "reachable s \<Longrightarrow> reachable (addToWatchHistory u v s)"
| other: "reachable s \<Longrightarrow> userLikes s' = userLikes s \<Longrightarrow> userDislikes s' = userDislikes s
            \<Longrightarrow> watchHistory s' = watchHistory s \<Longrightarrow> reachable s'"

section \<open>Example stores\<close>

text \<open>One published video; then the same store after user 2 has liked video 1.\<close>

definition store_one_video :: store where
  "store_one_video =
     snd (createVideo \<lparr>userId_i = Some 5, categoryId_i = None, title_i = ''Cat'',
                       description_i = None, isDeleted_i = None\<rparr> init_store)"

definition store_liked :: store where
  "store_liked = snd (likeVideo 1 2 store_one_video)"

text \<open>A run of views by one user, and the store after user 7 has viewed videos 1 to 100 in turn.\<close>

definition recordViews :: "int \<Rightarrow> int list \<Rightarrow> store \<Rightarrow> store" where
  "recordViews userId vids s = foldl (\<lambda>st vid. addToWatchHistory userId vid st) s vids"

definition store_full_history :: store where
  "store_full_history = recordViews 7 (map int [1 ..< 101]) init_store"

text \<open>
  Two published videos; the same store after user 7 has viewed video 1 and then video 2;
  and the two videos with three comments on video 1 and one on video 2.
\<close>

definition store_two_videos :: store where
  "store_two_videos =
     snd (createVideo \<lparr>userId_i = Some 5, categoryId_i = None, title_i = ''Dog'',
                       description_i = None, isDeleted_i = None\<rparr> store_one_video)"

definition store_two_viewed :: store where
  "store_two_viewed = addToWatchHistory 7 2 (addToWatchHistory 7 1 store_two_videos)"

definition store_commented :: store where
  "store_commented =
     snd (createComment (Some 2) (Some 8) ''other'' 
       (snd (createComment (Some 1) None ''third''
         (snd (createComment (Some 1) (Some 9) ''second''
           (snd (createComment (Some 1) (Some 8) ''first'' store_two_videos)))))))"

text \<open>
  Three videos with the same title and different counters, and their scored candidates for
  the query \<open>cat\<close>.
\<close>

definition video_a :: video where
  "video_a = \<lparr>id_v = 1, userId_v = Some 5, categoryId_v = None, title = ''Cat'',
               description = None, views = 200, likes = 0, dislikes = 0,
               isDeleted = False, permanentlyDeleted = False\<rparr>"

definition video_b :: video where
  "video_b = \<lparr>id_v = 2, userId_v = Some 5, categoryId_v = None, title = ''Cat'',
               description = None, views = 100, likes = 15, dislikes = 0,
               isDeleted = False, permanentlyDeleted = False\<rparr>"

definition video_c :: video where
  "video_c = \<lparr>id_v = 3, userId_v = Some 5, categoryId_v = None, title = ''Cat'',
               description = None, views = 0, likes = 32, dislikes = 0,
               isDeleted = False, permanentlyDeleted = False\<rparr>"

definition store_ranked :: store where
  "store_ranked = \<lparr>videos = [(1, video_a), (2, video_b), (3, video_c)], comments = [],
     videoId = 4, commentId = 1, userLikes = [], userDislikes = [], userSavedVideos = [],
     watchHistory = []\<rparr>"

definition cand_a :: scored where
  "cand_a = \<lparr>scored_video = video_a, searchScore = 176 / 5\<rparr>"

definition cand_b :: scored where
  "cand_b = \<lparr>scored_video = video_b, searchScore = 141 / 4\<rparr>"

definition cand_c :: scored where
  "cand_c = \<lparr>scored_video = video_c, searchScore = 883 / 25\<rparr>"



section \<open>Properties of the reaction toggles\<close>

lemma createVideo_frame:
  "userLikes (snd (createVideo video s)) = userLikes s \<and>
   userDislikes (snd (createVideo video s)) = userDislikes s \<and>
   watchHistory (snd (createVideo video s)) = watchHistory s"
  by (simp add: createVideo_def Let_def)

lemma reachable_createVideo:
  "reachable s \<Longrightarrow> reachable (snd (createVideo video s))"
  using createVideo_frame reachable.other by blast

lemma likeVideo_exclusive:
  assumes "\<not> (truthy (map_of (userLikes s) k) \<and> truthy (map_of (userDislikes s) k))"
  shows "\<not> (truthy (map_of (userLikes (snd (likeVideo i u s))) k) \<and>
            truthy (map_of (userDislikes (snd (likeVideo i u s))) k))"
  using assms
  by (auto simp: likeVideo_def Let_def truthy_def update_conv' delete_conv'
           split: option.splits if_splits)

lemma dislikeVideo_exclusive:
  assumes "\<not> (truthy (map_of (userLikes s) k) \<and> truthy (map_of (userDislikes s) k))"
  shows "\<not> (truthy (map_of (userLikes (snd (dislikeVideo i u s))) k) \<and>
            truthy (map_of (userDislikes (snd (dislikeVideo i u s))) k))"
  using assms
  by (auto simp: dislikeVideo_def Let_def truthy_def update_conv' delete_conv'
           split: option.splits if_splits)

lemma addToWatchHistory_frame:
  "userLikes (addToWatchHistory u v s) = userLikes s \<and>
   userDislikes (addToWatchHistory u v s) = userDislikes s"
  by (simp add: addToWatchHistory_def Let_def)

lemma reachable_exclusive:
  "reachable s \<Longrightarrow> \<not> (truthy (map_of (userLikes s) k) \<and> truthy (map_of (userDislikes s) k))"
proof (induction rule: reachable.induct)
  case init
  show ?case by (simp add: init_store_def truthy_def)
next
  case (like s i u)
  from like.IH show ?case by (rule likeVideo_exclusive)
next
  case (dislike s i u)
  from dislike.IH show ?case by (rule dislikeVideo_exclusive)
next
  case (history s u v)
  then show ?case by (simp add: addToWatchHistory_frame)
next
  case (other s s')
  then show ?case by simp
qed

text \<open>
  C1. In every reachable store, for every video id \<open>v\<close> and user id \<open>u\<close>, the like edge
  and the dislike edge of the pair are never both present; the flags \<open>getVideo\<close> reports
  for the pair are never both true.
\<close>

theorem reaction_edges_exclusive:
  assumes "reachable s"
  shows "\<not> (liked s v u \<and> disliked s v u) \<and>
         (\<forall>w. getVideo v (Some u) s = Some w \<longrightarrow>
              \<not> (userLiked w = Some True \<and> userDisliked w = Some True))"
proof -
  have ex: "\<not> (truthy (map_of (userLikes s) (key v u)) \<and> truthy (map_of (userDislikes s) (key v u)))"
    using assms by (rule reachable_exclusive)
  then have "\<not> (liked s v u \<and> disliked s v u)"
    by (simp add: liked_def disliked_def)
  moreover from ex have "\<forall>w. getVideo v (Some u) s = Some w \<longrightarrow>
              \<not> (userLiked w = Some True \<and> userDisliked w = Some True)"
    by (auto simp: getVideo_def split: option.splits if_splits)
  ultimately show ?thesis by blast
qed

lemma likeVideo_frame: "watchHistory (snd (likeVideo i u s)) = watchHistory s"
  by (auto simp: likeVideo_def Let_def split: option.splits)

lemma dislikeVideo_frame: "watchHistory (snd (dislikeVideo i u s)) = watchHistory s"
  by (auto simp: dislikeVideo_def Let_def split: option.splits)

lemma store_one_video_eval:
  "store_one_video =
     \<lparr>videos = [(1, \<lparr>id_v = 1, userId_v = Some 5, categoryId_v = None, title = ''Cat'',
                      description = None, views = 0, likes = 0, dislikes = 0,
                      isDeleted = False, permanentlyDeleted = False\<rparr>)],
      comments = [], videoId = 2, commentId = 1, userLikes = [], userDislikes = [],
      userSavedVideos = [], watchHistory = []\<rparr>"
  by (simp add: store_one_video_def createVideo_def init_store_def truthy_def Let_def)

lemma store_liked_eval:
  "store_liked =
     \<lparr>videos = [(1, \<lparr>id_v = 1, userId_v = Some 5, categoryId_v = None, title = ''Cat'',
                      description = None, views = 0, likes = 1, dislikes = 0,
                      isDeleted = False, permanentlyDeleted = False\<rparr>)],
      comments = [], videoId = 2, commentId = 1, userLikes = [(key 1 2, True)],
      userDislikes = [], userSavedVideos = [], watchHistory = []\<rparr>"
  by (simp add: store_liked_def store_one_video_eval likeVideo_def truthy_def)

lemma reachable_store_one_video: "reachable store_one_video"
  unfolding store_one_video_def by (intro reachable_createVideo reachable.init)

lemma reachable_store_liked: "reachable store_liked"
  unfolding store_liked_def by (intro reachable.like reachable_store_one_video)

theorem reaction_edges_exclusive_witness:
  "reachable store_liked \<and> liked store_liked 1 2 \<and> \<not> disliked store_liked 1 2"
proof -
  have l: "liked store_liked 1 2"
    by (simp add: store_liked_eval liked_def truthy_def)
  show ?thesis
    using reaction_edges_exclusive [OF reachable_store_liked, of 1 2] l reachable_store_liked
    by blast
qed

text \<open>
  C3. \<open>likeVideo\<close> and \<open>dislikeVideo\<close> on an id that resolves to no stored video fail with
  the not-found error and leave the whole store as it was.
\<close>

theorem toggle_missing_video:
  assumes "map_of (videos s) v = None"
  shows "likeVideo v u s = (Inl VideoNotFound, s) \<and> dislikeVideo v u s = (Inl VideoNotFound, s)"
  using assms by (simp add: likeVideo_def dislikeVideo_def)

theorem toggle_missing_video_witness:
  "map_of (videos store_liked) 9 = None \<and>
   likeVideo 9 2 store_liked = (Inl VideoNotFound, store_liked) \<and>
   dislikeVideo 9 2 store_liked = (Inl VideoNotFound, store_liked)"
proof -
  have h: "map_of (videos store_liked) 9 = None"
    by (simp add: store_liked_eval)
  show ?thesis
    using toggle_missing_video [OF h, of 2] h by simp
qed

text \<open>
  C2, as the code has it. For an existing video \<open>c\<close> and a user \<open>u\<close> whose pair does not
  hold both edges, \<open>likeVideo(c,u)\<close> followed by \<open>dislikeVideo(c,u)\<close> ends with the dislike
  edge present and the like edge absent. When the pair held no reaction before the two
  calls and the likes counter was not negative, the likes counter shows no net change and
  the dislikes counter exactly one increment.
\<close>

theorem like_then_dislike:
  assumes "map_of (videos s) c = Some video"
    and "\<not> (liked s c u \<and> disliked s c u)"
  shows "disliked (snd (dislikeVideo c u (snd (likeVideo c u s)))) c u \<and>
         \<not> liked (snd (dislikeVideo c u (snd (likeVideo c u s)))) c u \<and>
         (\<not> liked s c u \<and> \<not> disliked s c u \<and> 0 \<le> likes video \<longrightarrow>
            likesOf (snd (dislikeVideo c u (snd (likeVideo c u s)))) c = Some (likes video) \<and>
            dislikesOf (snd (dislikeVideo c u (snd (likeVideo c u s)))) c = Some (dislikes video + 1))"
  using assms
  by (auto simp: likeVideo_def dislikeVideo_def liked_def disliked_def Let_def
        likesOf_def dislikesOf_def truthy_def update_conv' delete_conv')

theorem like_then_dislike_witness:
  "map_of (videos store_one_video) 1 \<noteq> None \<and>
   \<not> liked store_one_video 1 2 \<and> \<not> disliked store_one_video 1 2 \<and>
   likesOf store_one_video 1 = Some 0 \<and> dislikesOf store_one_video 1 = Some 0 \<and>
   disliked (snd (dislikeVideo 1 2 (snd (likeVideo 1 2 store_one_video)))) 1 2 \<and>
   \<not> liked (snd (dislikeVideo 1 2 (snd (likeVideo 1 2 store_one_video)))) 1 2 \<and>
   likesOf (snd (dislikeVideo 1 2 (snd (likeVideo 1 2 store_one_video)))) 1 = Some 0 \<and>
   dislikesOf (snd (dislikeVideo 1 2 (snd (likeVideo 1 2 store_one_video)))) 1 = Some 1"
proof -
  obtain video where v: "map_of (videos store_one_video) 1 = Some video"
    and c: "likes video = 0" "dislikes video = 0"
    by (simp add: store_one_video_eval)
  have n: "\<not> liked store_one_video 1 2" "\<not> disliked store_one_video 1 2"
    by (simp_all add: store_one_video_eval liked_def disliked_def truthy_def)
  have o: "likesOf store_one_video 1 = Some 0" "dislikesOf store_one_video 1 = Some 0"
    by (simp_all add: store_one_video_eval likesOf_def dislikesOf_def)
  from n have e: "\<not> (liked store_one_video 1 2 \<and> disliked store_one_video 1 2)"
    by simp
  show ?thesis
    using like_then_dislike [OF v e] v c n o by simp
qed

text \<open>
  The unrestricted statement fails in a reachable store where user 2 already likes video 1: the
  first call withdraws the like, and the likes counter ends one below where it started.
\<close>

theorem like_then_dislike_counterexample:
  "reachable store_liked \<and> map_of (videos store_liked) 1 \<noteq> None \<and>
   likesOf store_liked 1 = Some 1 \<and>
   likesOf (snd (dislikeVideo 1 2 (snd (likeVideo 1 2 store_liked)))) 1 = Some 0"
  using reachable_store_liked
  by (simp add: store_liked_eval likesOf_def likeVideo_def dislikeVideo_def truthy_def)

text \<open>
  C6, as the code has it. For an existing video \<open>c\<close> and a user \<open>u\<close>, two calls of
  \<open>likeVideo(c,u)\<close> in succession bring the likes counter back to its value before the
  calls and the like edge back to what it was (provided the counter was not negative, and
  at least 1 when the edge was present), and the second call's result carries
  \<open>userLiked\<close> equal to the edge before the calls: \<open>false\<close> exactly when the user did not
  like the video to begin with.
\<close>

theorem like_twice:
  assumes "map_of (videos s) c = Some video"
    and "if liked s c u then 1 \<le> likes video else 0 \<le> likes video"
  shows "likesOf (snd (likeVideo c u (snd (likeVideo c u s)))) c = Some (likes video) \<and>
         (liked (snd (likeVideo c u (snd (likeVideo c u s)))) c u \<longleftrightarrow> liked s c u) \<and>
         map_sum id userLiked (fst (likeVideo c u (snd (likeVideo c u s)))) = Inr (Some (liked s c u))"
  using assms
  by (auto simp: likeVideo_def liked_def disliked_def Let_def
        likesOf_def dislikesOf_def truthy_def update_conv' delete_conv' split: if_splits)

theorem like_twice_witness:
  "map_of (videos store_one_video) 1 \<noteq> None \<and> \<not> liked store_one_video 1 2 \<and>
   likesOf store_one_video 1 = Some 0 \<and>
   likesOf (snd (likeVideo 1 2 (snd (likeVideo 1 2 store_one_video)))) 1 = Some 0 \<and>
   \<not> liked (snd (likeVideo 1 2 (snd (likeVideo 1 2 store_one_video)))) 1 2 \<and>
   map_sum id userLiked (fst (likeVideo 1 2 (snd (likeVideo 1 2 store_one_video)))) = Inr (Some False)"
proof -
  obtain video where v: "map_of (videos store_one_video) 1 = Some video"
    and c: "likes video = 0"
    by (simp add: store_one_video_eval)
  have n: "\<not> liked store_one_video 1 2"
    by (simp add: store_one_video_eval liked_def truthy_def)
  have o: "likesOf store_one_video 1 = Some 0"
    by (simp add: store_one_video_eval likesOf_def)
  have h: "if liked store_one_video 1 2 then 1 \<le> likes video else 0 \<le> likes video"
    using n c by simp
  show ?thesis
    using like_twice [OF v h] v c n o by simp
qed

text \<open>
  The unrestricted statement fails in a reachable store where user 2 already likes video 1: after
  two more calls the like edge is present again and the second call reports
  \<open>userLiked = true\<close>.
\<close>

theorem like_twice_counterexample:
  "reachable store_liked \<and> map_of (videos store_liked) 1 \<noteq> None \<and>
   liked (snd (likeVideo 1 2 (snd (likeVideo 1 2 store_liked)))) 1 2 \<and>
   map_sum id userLiked (fst (likeVideo 1 2 (snd (likeVideo 1 2 store_liked)))) = Inr (Some True)"
  using reachable_store_liked
  by (simp add: store_liked_eval liked_def likeVideo_def truthy_def)

section \<open>Properties of the watch history\<close>

lemma historyOf_add:
  "historyOf (addToWatchHistory u v s) u' =
     (if u' = u then take 100 (v # filter (\<lambda>i. i \<noteq> v) (historyOf s u)) else historyOf s u')"
  by (simp add: addToWatchHistory_def historyOf_def Let_def update_conv')

lemma reachable_history:
  "reachable s \<Longrightarrow> length (historyOf s u) \<le> 100 \<and> distinct (historyOf s u)"
proof (induction rule: reachable.induct)
  case init
  show ?case by (simp add: init_store_def historyOf_def)
next
  case (like s i w)
  then show ?case by (simp add: historyOf_def likeVideo_frame)
next
  case (dislike s i w)
  then show ?case by (simp add: historyOf_def dislikeVideo_frame)
next
  case (history s w v)
  then show ?case by (auto simp: historyOf_add dest: in_set_takeD)
next
  case (other s s')
  then show ?case by (simp add: historyOf_def)
qed

lemma filter_neq_id: "v \<notin> set xs \<Longrightarrow> filter (\<lambda>i. i \<noteq> v) xs = xs"
  by (induction xs) auto

lemma filter_neq_remove1: "distinct xs \<Longrightarrow> filter (\<lambda>i. i \<noteq> v) xs = remove1 v xs"
  by (induction xs) (auto simp: filter_neq_id)

lemma length_filter_neq_mem:
  "distinct xs \<Longrightarrow> v \<in> set xs \<Longrightarrow> Suc (length (filter (\<lambda>i. i \<noteq> v) xs)) = length xs"
  by (induction xs) (auto simp: filter_neq_id)

text \<open>
  C4. In every reachable store, every user's stored watch history has at most 100 entries
  and no duplicate video id, and stays so after another \<open>addToWatchHistory\<close>. Recording
  a view of an id already in the list removes the old occurrence and puts the id at the
  front; a new id goes to the front; and when the list is full the entry at the far end,
  the one viewed longest ago, is the one dropped.
\<close>

theorem watch_history_bounded:
  assumes "reachable s"
  shows "length (historyOf s u) \<le> 100 \<and> distinct (historyOf s u) \<and>
         length (historyOf (addToWatchHistory u v s) u) \<le> 100 \<and>
         distinct (historyOf (addToWatchHistory u v s) u) \<and>
         (v \<in> set (historyOf s u) \<longrightarrow>
            historyOf (addToWatchHistory u v s) u = v # remove1 v (historyOf s u)) \<and>
         (v \<notin> set (historyOf s u) \<and> length (historyOf s u) < 100 \<longrightarrow>
            historyOf (addToWatchHistory u v s) u = v # historyOf s u) \<and>
         (v \<notin> set (historyOf s u) \<and> length (historyOf s u) = 100 \<longrightarrow>
            historyOf (addToWatchHistory u v s) u = v # butlast (historyOf s u))"
proof -
  have inv: "length (historyOf s u) \<le> 100" "distinct (historyOf s u)"
    using reachable_history [OF assms] by simp_all
  have inv': "length (historyOf (addToWatchHistory u v s) u) \<le> 100"
    "distinct (historyOf (addToWatchHistory u v s) u)"
    using reachable_history [OF reachable.history [OF assms]] by simp_all
  have a: "historyOf (addToWatchHistory u v s) u = v # remove1 v (historyOf s u)"
    if "v \<in> set (historyOf s u)"
    using that inv length_filter_neq_mem [OF inv(2) that]
    by (simp add: historyOf_add filter_neq_remove1 [symmetric])
  have b: "historyOf (addToWatchHistory u v s) u = v # historyOf s u"
    if "v \<notin> set (historyOf s u)" "length (historyOf s u) < 100"
    using that by (simp add: historyOf_add filter_neq_id)
  have c: "historyOf (addToWatchHistory u v s) u = v # butlast (historyOf s u)"
    if "v \<notin> set (historyOf s u)" "length (historyOf s u) = 100"
    using that by (simp add: historyOf_add filter_neq_id butlast_conv_take)
  show ?thesis using inv inv' a b c by blast
qed

text \<open>
  The stored list after a run of views by one user, starting from the fresh store: the
  100 most recently viewed distinct ids, the latest first. So the last entry of a full
  list is the one whose latest view lies furthest back.
\<close>

lemma reachable_recordViews: "reachable s \<Longrightarrow> reachable (recordViews u vs s)"
  unfolding recordViews_def
  by (induction vs arbitrary: s) (simp_all add: reachable.history)

lemma remdups_snoc: "remdups (vs @ [v]) = filter (\<lambda>i. i \<noteq> v) (remdups vs) @ [v]"
  by (induction vs) auto

lemma take_filter_take:
  "distinct xs \<Longrightarrow> take n (filter (\<lambda>i. i \<noteq> v) (take (Suc n) xs)) = take n (filter (\<lambda>i. i \<noteq> v) xs)"
proof (induction xs arbitrary: n)
  case Nil
  show ?case by simp
next
  case (Cons x xs)
  show ?case
  proof (cases n)
    case 0
    then show ?thesis by simp
  next
    case (Suc m)
    show ?thesis
    proof (cases "x = v")
      case True
      with Cons.prems have "v \<notin> set xs" by simp
      then have "v \<notin> set (take (Suc m) xs)" by (meson in_set_takeD)
      with \<open>v \<notin> set xs\<close> True Suc show ?thesis by (simp add: filter_neq_id)
    next
      case False
      with Cons Suc show ?thesis by simp
    qed
  qed
qed

lemma history_of_views:
  "historyOf (recordViews u vs init_store) u = take 100 (rev (remdups vs))"
proof (induction vs rule: rev_induct)
  case Nil
  show ?case by (simp add: recordViews_def init_store_def historyOf_def)
next
  case (snoc v vs)
  have "historyOf (recordViews u (vs @ [v]) init_store) u =
        take 100 (v # filter (\<lambda>i. i \<noteq> v) (take 100 (rev (remdups vs))))"
    using snoc by (simp add: recordViews_def historyOf_add)
  also have "\<dots> = v # take 99 (filter (\<lambda>i. i \<noteq> v) (take (Suc 99) (rev (remdups vs))))"
    by simp
  also have "\<dots> = v # take 99 (filter (\<lambda>i. i \<noteq> v) (rev (remdups vs)))"
    by (subst take_filter_take) simp_all
  also have "\<dots> = take 100 (rev (remdups (vs @ [v])))"
    by (simp add: remdups_snoc rev_filter)
  finally show ?case .
qed

lemma full_history: "historyOf store_full_history 7 = rev (map int [1 ..< 101])"
proof -
  have "distinct (map int [1 ..< 101])" by (simp add: distinct_map)
  then show ?thesis
    by (simp add: store_full_history_def history_of_views distinct_remdups_id)
qed


theorem watch_history_bounded_witness:
  "reachable store_full_history \<and> length (historyOf store_full_history 7) = 100 \<and>
   101 \<notin> set (historyOf store_full_history 7) \<and> last (historyOf store_full_history 7) = 1 \<and>
   historyOf (addToWatchHistory 7 101 store_full_history) 7 = 101 # butlast (historyOf store_full_history 7) \<and>
   50 \<in> set (historyOf store_full_history 7) \<and>
   historyOf (addToWatchHistory 7 50 store_full_history) 7 = 50 # remove1 50 (historyOf store_full_history 7) \<and>
   reachable init_store \<and> historyOf init_store 7 = [] \<and>
   historyOf (addToWatchHistory 7 3 init_store) 7 = [3]"
proof -
  have r: "reachable store_full_history"
    unfolding store_full_history_def by (intro reachable_recordViews reachable.init)
  have l: "length (historyOf store_full_history 7) = 100"
    by (simp add: full_history)
  have n: "101 \<notin> set (historyOf store_full_history 7)"
    by (auto simp: full_history)
  have o: "last (historyOf store_full_history 7) = 1"
    by (simp add: full_history last_rev hd_map)
  have m: "50 \<in> set (historyOf store_full_history 7)"
    by (auto simp: full_history image_iff intro: bexI [of _ 50])
  have e: "historyOf init_store 7 = []"
    by (simp add: init_store_def historyOf_def)
  show ?thesis
    using watch_history_bounded [OF r, of 7 101] watch_history_bounded [OF r, of 7 50]
      watch_history_bounded [OF reachable.init, of 7 3] r l n o m e reachable.init
    by simp
qed

lemma store_two_videos_eval:
  "store_two_videos =
     \<lparr>videos = [(1, \<lparr>id_v = 1, userId_v = Some 5, categoryId_v = None, title = ''Cat'',
                      description = None, views = 0, likes = 0, dislikes = 0,
                      isDeleted = False, permanentlyDeleted = False\<rparr>),
                 (2, \<lparr>id_v = 2, userId_v = Some 5, categoryId_v = None, title = ''Dog'',
                      description = None, views = 0, likes = 0, dislikes = 0,
                      isDeleted = False, permanentlyDeleted = False\<rparr>)],
      comments = [], videoId = 3, commentId = 1, userLikes = [], userDislikes = [],
      userSavedVideos = [], watchHistory = []\<rparr>"
  by (simp add: store_two_videos_def store_one_video_eval createVideo_def truthy_def Let_def)

text \<open>
  C5 fails on the code. The stored list is already most recent first (\<open>unshift\<close> puts the
  new id at the front), and \<open>getWatchHistory\<close> reverses it: user 7 viewed video 1 and
  then video 2, and the returned list has video 1 first.
\<close>

theorem getWatchHistory_oldest_first:
  "historyOf store_two_viewed 7 = [2, 1] \<and>
   map id_v (getWatchHistory 7 store_two_viewed) = [1, 2]"
  by (simp add: store_two_viewed_def store_two_videos_eval addToWatchHistory_def
      getWatchHistory_def historyOf_def Let_def)

section \<open>Permanent deletion\<close>

lemma cascade_videos:
  "videos (foldl (\<lambda>st (cid, c). if videoId_c c = Some vid
                                  then st\<lparr>comments := AList.delete cid (comments st)\<rparr> else st) st es)
   = videos st"
  by (induction es arbitrary: st) (auto split: prod.splits)

lemma cascade_subset:
  "set (comments (foldl (\<lambda>st (cid, c). if videoId_c c = Some vid
                                  then st\<lparr>comments := AList.delete cid (comments st)\<rparr> else st) st es))
   \<subseteq> set (comments st)"
proof (induction es arbitrary: st)
  case Nil
  show ?case by simp
next
  case (Cons e es)
  obtain cid c where e: "e = (cid, c)" by (cases e)
  show ?case
  proof (cases "videoId_c c = Some vid")
    case True
    have "set (comments (st\<lparr>comments := AList.delete cid (comments st)\<rparr>)) \<subseteq> set (comments st)"
      by (auto simp: AList.delete_eq)
    with Cons.IH [of "st\<lparr>comments := AList.delete cid (comments st)\<rparr>"] True e
    show ?thesis by auto
  next
    case False
    with Cons.IH [of st] e show ?thesis by simp
  qed
qed

lemma cascade_removed:
  "(k, c) \<in> set es \<Longrightarrow> videoId_c c = Some vid \<Longrightarrow>
   k \<notin> fst ` set (comments (foldl (\<lambda>st (cid, c). if videoId_c c = Some vid
                                  then st\<lparr>comments := AList.delete cid (comments st)\<rparr> else st) st es))"
proof (induction es arbitrary: st)
  case Nil
  then show ?case by simp
next
  case (Cons e es)
  show ?case
  proof (cases "e = (k, c)")
    case True
    have "k \<notin> fst ` set (comments (st\<lparr>comments := AList.delete k (comments st)\<rparr>))"
      by (auto simp: AList.delete_eq)
    moreover have "set (comments (foldl (\<lambda>st (cid, c). if videoId_c c = Some vid
                                  then st\<lparr>comments := AList.delete cid (comments st)\<rparr> else st)
                     (st\<lparr>comments := AList.delete k (comments st)\<rparr>) es))
       \<subseteq> set (comments (st\<lparr>comments := AList.delete k (comments st)\<rparr>))"
      by (rule cascade_subset)
    ultimately show ?thesis using True Cons.prems(2) by auto
  next
    case False
    with Cons.prems have "(k, c) \<in> set es" by simp
    from Cons.IH [OF this Cons.prems(2)] show ?thesis by simp
  qed
qed

text \<open>
  C8. After \<open>permanentlyDeleteVideo(v)\<close> of a stored video \<open>v\<close>, whatever comments it had,
  no comment of the store belongs to \<open>v\<close>, \<open>getVideoComments(v)\<close> is empty, and
  \<open>getVideo(v)\<close> finds nothing.
\<close>

theorem permanent_delete_cascades:
  assumes "map_of (videos s) v = Some video"
  shows "getVideoComments v (permanentlyDeleteVideo v s) = [] \<and>
         (\<forall>c \<in> snd ` set (comments (permanentlyDeleteVideo v s)). videoId_c c \<noteq> Some v) \<and>
         getVideo v userId (permanentlyDeleteVideo v s) = None"
proof -
  let ?s1 = "s\<lparr>videos := AList.delete v (videos s)\<rparr>"
  let ?s2 = "foldl (\<lambda>st (cid, c). if videoId_c c = Some v
                       then st\<lparr>comments := AList.delete cid (comments st)\<rparr> else st) ?s1 (comments ?s1)"
  have p: "permanentlyDeleteVideo v s = ?s2"
    using assms by (simp add: permanentlyDeleteVideo_def Let_def)
  have none: "videoId_c c \<noteq> Some v" if "(k, c) \<in> set (comments ?s2)" for k c
  proof
    assume b: "videoId_c c = Some v"
    from that cascade_subset have "(k, c) \<in> set (comments ?s1)" by blast
    from cascade_removed [OF this b] that show False by force
  qed
  then have all: "\<forall>c \<in> snd ` set (comments ?s2). videoId_c c \<noteq> Some v"
    by auto
  then have "filter (\<lambda>c. videoId_c c = Some v) (map snd (comments ?s2)) = []"
    by (auto simp: filter_empty_conv)
  then have g: "getVideoComments v ?s2 = []"
    by (simp add: getVideoComments_def)
  have "map_of (videos ?s2) v = None"
    by (simp add: cascade_videos delete_conv')
  then have "getVideo v userId ?s2 = None"
    by (simp add: getVideo_def)
  with g all p show ?thesis by simp
qed

lemma store_commented_eval:
  "store_commented =
     \<lparr>videos = [(1, \<lparr>id_v = 1, userId_v = Some 5, categoryId_v = None, title = ''Cat'',
                      description = None, views = 0, likes = 0, dislikes = 0,
                      isDeleted = False, permanentlyDeleted = False\<rparr>),
                 (2, \<lparr>id_v = 2, userId_v = Some 5, categoryId_v = None, title = ''Dog'',
                      description = None, views = 0, likes = 0, dislikes = 0,
                      isDeleted = False, permanentlyDeleted = False\<rparr>)],
      comments = [(1, \<lparr>id_c = 1, videoId_c = Some 1, userId_c = Some 8, content = ''first''\<rparr>),
                  (2, \<lparr>id_c = 2, videoId_c = Some 1, userId_c = Some 9, content = ''second''\<rparr>),
                  (3, \<lparr>id_c = 3, videoId_c = Some 1, userId_c = None, content = ''third''\<rparr>),
                  (4, \<lparr>id_c = 4, videoId_c = Some 2, userId_c = Some 8, content = ''other''\<rparr>)],
      videoId = 3, commentId = 5, userLikes = [], userDislikes = [],
      userSavedVideos = [], watchHistory = []\<rparr>"
  by (simp add: store_commented_def store_two_videos_eval createComment_def Let_def)

theorem permanent_delete_cascades_witness:
  "map_of (videos store_commented) 1 \<noteq> None \<and>
   map id_c (getVideoComments 1 store_commented) = [3, 2, 1] \<and>
   getVideoComments 1 (permanentlyDeleteVideo 1 store_commented) = [] \<and>
   getVideo 1 None (permanentlyDeleteVideo 1 store_commented) = None"
proof -
  obtain video where v: "map_of (videos store_commented) 1 = Some video"
    by (simp add: store_commented_eval)
  have c: "map id_c (getVideoComments 1 store_commented) = [3, 2, 1]"
    by (simp add: store_commented_eval getVideoComments_def)
  show ?thesis
    using permanent_delete_cascades [OF v, of None] v c by simp
qed

section \<open>Properties of the search route\<close>



text \<open>
  C9 fails on the code. \<open>similarity\<close> has no guard for the zero denominator: for two
  empty strings it computes \<open>1 - 0 / 0\<close>, which is \<open>NaN\<close>, while two equal strings that
  are not empty get similarity 1.
\<close>

theorem similarity_empty_is_NaN:
  "similarity [] [] = NaN \<and> similarity ''cat'' ''cat'' = Num 1"
  by (simp add: similarity_def)



text \<open>
  The rule is not transitive, so it cannot hold for every pair of a result in general.
  For the query \<open>cat\<close> on the three videos the candidates are within 0.1 of their
  neighbour but the outer two are not, and popularity runs against the score: none of the
  six orders of the three candidates respects the rule for all its pairs, whatever the
  sort does.
\<close>

lemma candidates_ranked: "scoredCandidates ''cat'' None store_ranked = [cand_c, cand_b, cand_a]"
  by code_simp


text \<open>
  Hence, for any \<open>sort\<close> that returns a permutation of its input, the result of the route
  for this query does not respect the rule.
\<close>

lemma perm3:
  assumes "mset ys = mset [a, b, c]"
  shows "ys \<in> {[a, b, c], [a, c, b], [b, a, c], [b, c, a], [c, a, b], [c, b, a]}"
proof -
  from assms have "length ys = 3" by (metis length_Cons list.size(3) numeral_3_eq_3 size_mset)
  then obtain x y z where ys: "ys = [x, y, z]"
    by (metis (no_types, opaque_lifting) length_0_conv length_Suc_conv numeral_3_eq_3)
  from assms show ?thesis unfolding ys
    by (auto simp: add_eq_conv_diff)
qed

lemma ranking_never_respected:
  assumes "\<forall>xs. mset (sortWith compareScored xs) = mset xs"
  shows "\<not> ranking_respected (search sortWith ''cat'' None store_ranked)"
proof -
  have "mset (search sortWith ''cat'' None store_ranked) = mset [cand_c, cand_b, cand_a]"
    using assms candidates_ranked by (simp add: search_def)
  from perm3 [OF this] show ?thesis
    by (auto simp: ranked_before_def popularity_def cand_a_def cand_b_def cand_c_def
      video_a_def video_b_def video_c_def)
qed











text \<open>
  The counters start at 0 and stay non-negative under \<open>createVideo\<close>, \<open>incrementViews\<close>
  and the two toggles, and every video \<open>getVideos\<close> returns is a stored one.
\<close>

lemma list_all_update:
  "list_all P xs \<Longrightarrow> P (k, v) \<Longrightarrow> list_all P (AList.update k v xs)"
  by (induction xs) auto

lemma list_all_map_of:
  "list_all P xs \<Longrightarrow> map_of xs k = Some v \<Longrightarrow> P (k, v)"
  by (induction xs) (auto split: if_splits)

lemma counters_nonneg_init: "counters_nonneg init_store"
  by (simp add: counters_nonneg_def init_store_def)

lemma counters_nonneg_createVideo:
  "counters_nonneg s \<Longrightarrow> counters_nonneg (snd (createVideo video s))"
  by (simp add: counters_nonneg_def createVideo_def Let_def list_all_update)

lemma counters_nonneg_incrementViews:
  assumes "counters_nonneg s"
  shows "counters_nonneg (incrementViews i s)"
proof (cases "map_of (videos s) i")
  case None
  with assms show ?thesis by (simp add: incrementViews_def)
next
  case (Some video)
  from assms have a: "list_all (\<lambda>(i, video). 0 \<le> views video \<and> 0 \<le> likes video \<and> 0 \<le> dislikes video) (videos s)"
    by (simp add: counters_nonneg_def)
  from list_all_map_of [OF a Some] have "0 \<le> views video \<and> 0 \<le> likes video \<and> 0 \<le> dislikes video"
    by simp
  with a Some show ?thesis
    by (simp add: incrementViews_def counters_nonneg_def list_all_update)
qed

lemma counters_nonneg_likeVideo:
  assumes "counters_nonneg s"
  shows "counters_nonneg (snd (likeVideo i u s))"
proof (cases "map_of (videos s) i")
  case None
  with assms show ?thesis by (simp add: likeVideo_def)
next
  case (Some video)
  from assms have a: "list_all (\<lambda>(i, video). 0 \<le> views video \<and> 0 \<le> likes video \<and> 0 \<le> dislikes video) (videos s)"
    by (simp add: counters_nonneg_def)
  from list_all_map_of [OF a Some] have "0 \<le> views video \<and> 0 \<le> likes video \<and> 0 \<le> dislikes video"
    by simp
  with a Some show ?thesis
    by (auto simp: likeVideo_def counters_nonneg_def Let_def intro!: list_all_update)
qed

lemma counters_nonneg_dislikeVideo:
  assumes "counters_nonneg s"
  shows "counters_nonneg (snd (dislikeVideo i u s))"
proof (cases "map_of (videos s) i")
  case None
  with assms show ?thesis by (simp add: dislikeVideo_def)
next
  case (Some video)
  from assms have a: "list_all (\<lambda>(i, video). 0 \<le> views video \<and> 0 \<le> likes video \<and> 0 \<le> dislikes video) (videos s)"
    by (simp add: counters_nonneg_def)
  from list_all_map_of [OF a Some] have "0 \<le> views video \<and> 0 \<le> likes video \<and> 0 \<le> dislikes video"
    by simp
  with a Some show ?thesis
    by (auto simp: dislikeVideo_def counters_nonneg_def Let_def intro!: list_all_update)
qed

lemma getVideos_subset: "set (getVideos limit offset categoryId showDeleted s) \<subseteq> snd ` set (videos s)"
proof -
  have "set (getVideos limit offset categoryId showDeleted s)
        \<subseteq> set (sort_key (\<lambda>v. - id_v v)
         (filter (\<lambda>video. if showDeleted then isDeleted video \<and> \<not> permanentlyDeleted video
                          else \<not> isDeleted video \<and> \<not> permanentlyDeleted video)
           (filter (\<lambda>video. categoryId = None \<or> categoryId = Some 0 \<or> categoryId = Some 1 \<or>
                            categoryId_v video = categoryId)
             (map snd (videos s)))))"
    unfolding getVideos_def by (meson in_set_dropD in_set_takeD subsetI)
  then show ?thesis by auto
qed

lemma counters_nonneg_fetched:
  assumes "counters_nonneg s"
  shows "\<forall>video \<in> set (getVideos limit offset categoryId showDeleted s). 0 \<le> views video \<and> 0 \<le> likes video"
proof
  fix video assume "video \<in> set (getVideos limit offset categoryId showDeleted s)"
  with getVideos_subset obtain i where "(i, video) \<in> set (videos s)" by fastforce
  with assms show "0 \<le> views video \<and> 0 \<le> likes video"
    by (auto simp: counters_nonneg_def list_all_iff)
qed



end
